theory Spec2Isabelle
  imports Complex_Main
begin

section \<open>Array values\<close>

text \<open>
  The node classes of \<^verbatim>\<open>node_bz.ipynb\<close> compute with numpy arrays. The arrays the
  classes document are 0-dimensional (numpy scalars) and 1-dimensional (vectors); these are
  the arrays of this development. Entries are idealised as real numbers: rounding of
  floating-point entries and wrap-around of fixed-width integer entries are outside the model.
  A shape is the tuple numpy reports: \<open>[]\<close> for a 0-dimensional array, \<open>[n]\<close> for a
  vector of length \<open>n\<close>.
\<close>

datatype ndarray = Scalar real | Vec "real list"

datatype error = AttributeError | TypeError | ValueError

fun shape :: "ndarray \<Rightarrow> nat list" where
  "shape (Scalar x) = []"
| "shape (Vec xs) = [length xs]"

text \<open>\<^verbatim>\<open>np.zeros(shape)\<close>, for the shapes that \<open>shape\<close> produces.\<close>

fun np_zeros :: "nat list \<Rightarrow> ndarray" where
  "np_zeros [] = Scalar 0"
| "np_zeros (n # ns) = Vec (replicate n 0)"

text \<open>
  Elementwise binary operations broadcast: a 0-dimensional operand and a vector of length
  one are stretched to the other operand's shape; two vectors of different lengths, neither
  of length one, raise \<^verbatim>\<open>ValueError\<close>.
\<close>

fun broadcast :: "(real \<Rightarrow> real \<Rightarrow> real) \<Rightarrow> ndarray \<Rightarrow> ndarray \<Rightarrow> error + ndarray" where
  "broadcast f (Scalar x) (Scalar y) = Inr (Scalar (f x y))"
| "broadcast f (Scalar x) (Vec ys) = Inr (Vec (map (f x) ys))"
| "broadcast f (Vec xs) (Scalar y) = Inr (Vec (map (\<lambda>x. f x y) xs))"
| "broadcast f (Vec xs) (Vec ys) =
     (if length xs = length ys then Inr (Vec (map2 f xs ys))
      else if length xs = 1 then Inr (Vec (map (f (hd xs)) ys))
      else if length ys = 1 then Inr (Vec (map (\<lambda>x. f x (hd ys)) xs))
      else Inl ValueError)"

text \<open>
  An attribute such as \<^verbatim>\<open>out\<close> holds \<^verbatim>\<open>None\<close> until it is assigned, so the operands
  of the arithmetic are optional arrays; arithmetic on \<^verbatim>\<open>None\<close> raises \<^verbatim>\<open>TypeError\<close>.
\<close>

fun binop :: "(real \<Rightarrow> real \<Rightarrow> real) \<Rightarrow> ndarray option \<Rightarrow> ndarray option \<Rightarrow> error + ndarray" where
  "binop f (Some a) (Some b) = broadcast f a b"
| "binop f a b = Inl TypeError"

definition np_add :: "ndarray option \<Rightarrow> ndarray option \<Rightarrow> error + ndarray" where
  "np_add = binop (+)"

definition np_sub :: "ndarray option \<Rightarrow> ndarray option \<Rightarrow> error + ndarray" where
  "np_sub = binop (-)"

definition np_mul :: "ndarray option \<Rightarrow> ndarray option \<Rightarrow> error + ndarray" where
  "np_mul = binop (*)"

text \<open>The Python literal \<^verbatim>\<open>2\<close> as an operand of array arithmetic.\<close>

definition two :: "ndarray option" where
  "two = Some (Scalar 2)"

fun np_neg :: "ndarray option \<Rightarrow> error + ndarray" where
  "np_neg (Some (Scalar x)) = Inr (Scalar (- x))"
| "np_neg (Some (Vec xs)) = Inr (Vec (map uminus xs))"
| "np_neg None = Inl TypeError"

text \<open>\<^verbatim>\<open>a ** 2\<close>\<close>

fun np_square :: "ndarray option \<Rightarrow> error + ndarray" where
  "np_square (Some (Scalar x)) = Inr (Scalar (x ^ 2))"
| "np_square (Some (Vec xs)) = Inr (Vec (map (\<lambda>x. x ^ 2) xs))"
| "np_square None = Inl TypeError"

fun np_sum :: "ndarray \<Rightarrow> ndarray" where
  "np_sum (Scalar x) = Scalar x"
| "np_sum (Vec xs) = Scalar (sum_list xs)"

text \<open>
  \<^verbatim>\<open>np.dot\<close>: the inner product of two vectors of the same length (\<^verbatim>\<open>ValueError\<close>
  when the lengths differ, without broadcasting); when an operand is 0-dimensional it is the
  elementwise product.
\<close>

fun np_dot :: "ndarray option \<Rightarrow> ndarray option \<Rightarrow> error + ndarray" where
  "np_dot (Some (Vec xs)) (Some (Vec ys)) =
     (if length xs = length ys then Inr (Scalar (sum_list (map2 (*) xs ys)))
      else Inl ValueError)"
| "np_dot (Some a) (Some b) = broadcast (*) a b"
| "np_dot a b = Inl TypeError"

text \<open>
  \<^verbatim>\<open>target += operand\<close> on arrays works in place: the operand is broadcast to the
  target's shape, and the target's shape never changes. An operand that does not broadcast
  to that shape raises \<^verbatim>\<open>ValueError\<close>.
\<close>

fun iadd :: "ndarray option \<Rightarrow> ndarray option \<Rightarrow> error + ndarray" where
  "iadd (Some (Scalar x)) (Some (Scalar y)) = Inr (Scalar (x + y))"
| "iadd (Some (Scalar x)) (Some (Vec ys)) = Inl ValueError"
| "iadd (Some (Vec xs)) (Some (Scalar y)) = Inr (Vec (map (\<lambda>x. x + y) xs))"
| "iadd (Some (Vec xs)) (Some (Vec ys)) =
     (if length ys = length xs then Inr (Vec (map2 (+) xs ys))
      else if length ys = 1 then Inr (Vec (map (\<lambda>x. x + hd ys) xs))
      else Inl ValueError)"
| "iadd a b = Inl TypeError"

text \<open>Sequencing of statements that may raise.\<close>

fun then_do :: "error + 'a \<Rightarrow> ('a \<Rightarrow> error + 'b) \<Rightarrow> error + 'b" where
  "then_do (Inl e) f = Inl e"
| "then_do (Inr v) f = f v"

section \<open>Nodes\<close>

text \<open>
  A node object is identified by its reference. The class of a node carries the attributes
  fixed by its constructor: the references to its input nodes and, for
  \<^verbatim>\<open>L2NormPenaltyNode\<close>, the number \<^verbatim>\<open>l2_reg\<close>. \<^verbatim>\<open>AffineNode\<close> and \<^verbatim>\<open>TanhNode\<close>
  are classes with a docstring and no method, so they have no constructor arguments either.
\<close>

type_synonym node_id = nat

datatype node_class =
    ValueNode
  | VectorScalarAffineNode node_id node_id node_id
  | SquaredL2DistanceNode node_id node_id
  | L2NormPenaltyNode real node_id
  | SumNode node_id node_id
  | AffineNode
  | TanhNode

text \<open>
  The mutable attributes. \<^verbatim>\<open>a_minus_b\<close> exists on \<^verbatim>\<open>SquaredL2DistanceNode\<close> objects
  only; no method reads or writes it on the other classes.
\<close>

record node =
  node_name :: string
  cls :: node_class
  out :: "ndarray option"
  d_out :: "ndarray option"
  a_minus_b :: "ndarray option"

type_synonym store = "node_id \<Rightarrow> node"

text \<open>The node-valued attributes of a class, in constructor order.\<close>

fun input_nodes :: "node_class \<Rightarrow> node_id list" where
  "input_nodes ValueNode = []"
| "input_nodes (VectorScalarAffineNode x w b) = [x, w, b]"
| "input_nodes (SquaredL2DistanceNode a b) = [a, b]"
| "input_nodes (L2NormPenaltyNode l2_reg w) = [w]"
| "input_nodes (SumNode a b) = [a, b]"
| "input_nodes AffineNode = []"
| "input_nodes TanhNode = []"

subsection \<open>forward\<close>

text \<open>
  \<open>forward n s\<close> is the call \<^verbatim>\<open>n.forward()\<close> in store \<open>s\<close>: the returned array and
  the store after the call, or the exception raised. Calling a method that a class does not
  define raises \<^verbatim>\<open>AttributeError\<close>, as does \<^verbatim>\<open>None.shape\<close>.
\<close>

definition forward :: "node_id \<Rightarrow> store \<Rightarrow> error + (ndarray \<times> store)" where
  "forward n s =
    (case cls (s n) of
       ValueNode \<Rightarrow>
         (case out (s n) of
            None \<Rightarrow> Inl AttributeError
          | Some v \<Rightarrow> Inr (v, s(n := (s n)\<lparr>d_out := Some (np_zeros (shape v))\<rparr>)))
     | VectorScalarAffineNode x w b \<Rightarrow>
         then_do (np_dot (out (s x)) (out (s w))) (\<lambda>xw.
         then_do (np_add (Some xw) (out (s b))) (\<lambda>v.
           Inr (v, s(n := (s n)\<lparr>out := Some v, d_out := Some (np_zeros (shape v))\<rparr>))))
     | SquaredL2DistanceNode a b \<Rightarrow>
         then_do (np_sub (out (s a)) (out (s b))) (\<lambda>diff.
         then_do (np_square (Some diff)) (\<lambda>sq.
           let v = np_sum sq in
           Inr (v, s(n := (s n)\<lparr>out := Some v, d_out := Some (np_zeros (shape v)),
                                 a_minus_b := Some diff\<rparr>))))
     | L2NormPenaltyNode l2_reg w \<Rightarrow>
         then_do (np_square (out (s w))) (\<lambda>sq.
           let v = np_sum sq in
           Inr (v, s(n := (s n)\<lparr>out := Some v, d_out := Some (np_zeros (shape v))\<rparr>)))
     | SumNode a b \<Rightarrow>
         then_do (np_add (out (s a)) (out (s b))) (\<lambda>v.
           Inr (v, s(n := (s n)\<lparr>out := Some v, d_out := Some (np_zeros (shape v))\<rparr>)))
     | AffineNode \<Rightarrow> Inl AttributeError
     | TanhNode \<Rightarrow> Inl AttributeError)"

subsection \<open>backward\<close>

text \<open>\<^verbatim>\<open>p.d_out += c\<close>\<close>

definition add_to_d_out :: "node_id \<Rightarrow> ndarray option \<Rightarrow> store \<Rightarrow> error + store" where
  "add_to_d_out p c s =
     then_do (iadd (d_out (s p)) c) (\<lambda>v. Inr (s(p := (s p)\<lparr>d_out := Some v\<rparr>)))"

text \<open>
  \<open>backward n s\<close> is the call \<^verbatim>\<open>n.backward()\<close>: the returned value (\<^verbatim>\<open>None\<close> for
  the classes whose method has no \<^verbatim>\<open>return\<close>) and the store after the call. A local such
  as \<^verbatim>\<open>d_b = self.d_out\<close> is another name for the node's own array, so it is read where
  it is used; the products are new arrays and are computed before any update. The store of
  a call that raises is not tracked.
\<close>

definition backward :: "node_id \<Rightarrow> store \<Rightarrow> error + (ndarray option \<times> store)" where
  "backward n s =
    (case cls (s n) of
       ValueNode \<Rightarrow> Inr (None, s)
     | VectorScalarAffineNode x w b \<Rightarrow>
         then_do (np_mul (d_out (s n)) (out (s w))) (\<lambda>d_x.
         then_do (np_mul (d_out (s n)) (out (s x))) (\<lambda>d_w.
         then_do (add_to_d_out x (Some d_x) s) (\<lambda>s1.
         then_do (add_to_d_out w (Some d_w) s1) (\<lambda>s2.
         then_do (add_to_d_out b (d_out (s2 n)) s2) (\<lambda>s3.
           Inr (None, s3))))))
     | SquaredL2DistanceNode a b \<Rightarrow>
         then_do (np_mul (d_out (s n)) two) (\<lambda>d2.
         then_do (np_mul (Some d2) (a_minus_b (s n))) (\<lambda>d_a.
         then_do (np_neg (d_out (s n))) (\<lambda>nd.
         then_do (np_mul (Some nd) two) (\<lambda>nd2.
         then_do (np_mul (Some nd2) (a_minus_b (s n))) (\<lambda>d_b.
         then_do (add_to_d_out a (Some d_a) s) (\<lambda>s1.
         then_do (add_to_d_out b (Some d_b) s1) (\<lambda>s2.
           Inr (d_out (s2 n), s2))))))))
     | L2NormPenaltyNode l2_reg w \<Rightarrow>
         then_do (np_mul (d_out (s n)) two) (\<lambda>d2.
         then_do (np_mul (Some d2) (out (s w))) (\<lambda>d_w.
         then_do (add_to_d_out w (Some d_w) s) (\<lambda>s1.
           Inr (d_out (s1 n), s1))))
     | SumNode a b \<Rightarrow>
         then_do (add_to_d_out a (d_out (s n)) s) (\<lambda>s1.
         then_do (add_to_d_out b (d_out (s1 n)) s1) (\<lambda>s2.
           Inr (d_out (s2 n), s2)))
     | AffineNode \<Rightarrow> Inl AttributeError
     | TanhNode \<Rightarrow> Inl AttributeError)"

subsection \<open>get_predecessors\<close>

text \<open>The elements of the returned list are Python objects: node references or numbers.\<close>

datatype pyobj = Node node_id | Number real

fun get_predecessors :: "node_class \<Rightarrow> error + pyobj list" where
  "get_predecessors ValueNode = Inr []"
| "get_predecessors (VectorScalarAffineNode x w b) = Inr [Node x, Node w, Node b]"
| "get_predecessors (SquaredL2DistanceNode a b) = Inr [Node a, Node b]"
| "get_predecessors (L2NormPenaltyNode l2_reg w) = Inr [Node w, Number l2_reg]"
| "get_predecessors (SumNode a b) = Inr [Node a, Node b]"
| "get_predecessors AffineNode = Inl AttributeError"
| "get_predecessors TanhNode = Inl AttributeError"

fun is_node :: "pyobj \<Rightarrow> bool" where
  "is_node (Node n) = True"
| "is_node (Number r) = False"

section \<open>Calling code\<close>

text \<open>
  The code that uses the nodes calls \<^verbatim>\<open>forward\<close> and \<^verbatim>\<open>backward\<close> on them and
  assigns \<^verbatim>\<open>d_out\<close> of the output node. A sequence of such statements is run from left
  to right and stops at the first exception.
\<close>

datatype call = Forward node_id | Backward node_id | Assign_d_out node_id ndarray

fun run :: "call list \<Rightarrow> store \<Rightarrow> error + store" where
  "run [] s = Inr s"
| "run (Forward n # cs) s = then_do (forward n s) (\<lambda>(v, s'). run cs s')"
| "run (Backward n # cs) s = then_do (backward n s) (\<lambda>(r, s'). run cs s')"
| "run (Assign_d_out n g # cs) s = run cs (s(n := (s n)\<lparr>d_out := Some g\<rparr>))"

text \<open>A freshly constructed node: every constructor sets \<^verbatim>\<open>out\<close> and \<^verbatim>\<open>d_out\<close> to \<^verbatim>\<open>None\<close>.\<close>

definition new_node :: "string \<Rightarrow> node_class \<Rightarrow> node" where
  "new_node name c =
     \<lparr>node_name = name, cls = c, out = None, d_out = None, a_minus_b = None\<rparr>"

text \<open>A value node whose \<^verbatim>\<open>out\<close> has been assigned by the caller.\<close>

definition leaf :: "string \<Rightarrow> ndarray \<Rightarrow> node" where
  "leaf name v = (new_node name ValueNode)\<lparr>out := Some v\<rparr>"

section \<open>Statements about gradients\<close>

text \<open>The entries of an array, flattened.\<close>

fun entries :: "ndarray \<Rightarrow> real list" where
  "entries (Scalar x) = [x]"
| "entries (Vec xs) = xs"

text \<open>
  The local chain-rule contributions of one backward call, following section 4.1's table of
  the specification: a list of summands, each paired with the input node it is meant for,
  in the order of the table. The products are those of the table
  (\<open>d_out * w\<close>, \<open>d_out * 2 * diff\<close> with the cached difference, ...), computed in the
  store the call starts in. For the L2 penalty node the summand is \<open>d_out * 2 * w\<close>, the
  chain-rule summand of the output \<open>sum (w ^ 2)\<close> that its forward method computes.
\<close>

definition local_contributions :: "node_id \<Rightarrow> store \<Rightarrow> error + (node_id \<times> ndarray) list" where
  "local_contributions n s =
    (case cls (s n) of
       ValueNode \<Rightarrow> Inr []
     | VectorScalarAffineNode x w b \<Rightarrow>
         then_do (np_mul (d_out (s n)) (out (s w))) (\<lambda>d_x.
         then_do (np_mul (d_out (s n)) (out (s x))) (\<lambda>d_w.
           case d_out (s n) of
             None \<Rightarrow> Inl TypeError
           | Some d_b \<Rightarrow> Inr [(x, d_x), (w, d_w), (b, d_b)]))
     | SquaredL2DistanceNode a b \<Rightarrow>
         then_do (np_mul (d_out (s n)) two) (\<lambda>d2.
         then_do (np_mul (Some d2) (a_minus_b (s n))) (\<lambda>d_a.
         then_do (np_neg (d_out (s n))) (\<lambda>nd.
         then_do (np_mul (Some nd) two) (\<lambda>nd2.
         then_do (np_mul (Some nd2) (a_minus_b (s n))) (\<lambda>d_b.
           Inr [(a, d_a), (b, d_b)])))))
     | L2NormPenaltyNode l2_reg w \<Rightarrow>
         then_do (np_mul (d_out (s n)) two) (\<lambda>d2.
         then_do (np_mul (Some d2) (out (s w))) (\<lambda>d_w.
           Inr [(w, d_w)]))
     | SumNode a b \<Rightarrow>
         (case d_out (s n) of
            None \<Rightarrow> Inl TypeError
          | Some d \<Rightarrow> Inr [(a, d), (b, d)])
     | AffineNode \<Rightarrow> Inl AttributeError
     | TanhNode \<Rightarrow> Inl AttributeError)"

text \<open>The summands of such a list that are meant for node \<open>p\<close>, in order.\<close>

definition summands_for :: "node_id \<Rightarrow> (node_id \<times> ndarray) list \<Rightarrow> ndarray list" where
  "summands_for p k = map snd (filter (\<lambda>qc. fst qc = p) k)"

text \<open>Adding summands one after the other into the value of a \<^verbatim>\<open>d_out\<close> attribute.\<close>

fun accumulate :: "ndarray option \<Rightarrow> ndarray list \<Rightarrow> error + ndarray option" where
  "accumulate v [] = Inr v"
| "accumulate v (c # cs) = then_do (iadd v (Some c)) (\<lambda>v'. accumulate (Some v') cs)"

text \<open>The statements \<^verbatim>\<open>p.d_out += c\<close> for a list of summands, run in order.\<close>

fun add_all :: "(node_id \<times> ndarray) list \<Rightarrow> store \<Rightarrow> error + store" where
  "add_all [] s = Inr s"
| "add_all ((p, c) # k) s = then_do (add_to_d_out p (Some c) s) (add_all k)"

text \<open>
  The calls of one evaluation cycle, as the claims about cycles describe it: forward on
  every node of a list, the assignment of a seed to \<^verbatim>\<open>d_out\<close> of the output node, and
  backward on every node of the list in reverse order. The source file has no code that
  drives a cycle; the list, the output node and the seed are parameters.
\<close>

definition cycle :: "node_id list \<Rightarrow> node_id \<Rightarrow> ndarray \<Rightarrow> call list" where
  "cycle order out_node seed =
     map Forward order @ [Assign_d_out out_node seed] @ map Backward (rev order)"

text \<open>
  \<open>in_order s earlier ns\<close> says that the list \<open>ns\<close> continues the nodes \<open>earlier\<close>
  in topological order: no node occurs twice, and every input of a node occurs before it.
\<close>

fun in_order :: "store \<Rightarrow> node_id list \<Rightarrow> node_id list \<Rightarrow> bool" where
  "in_order s earlier [] = True"
| "in_order s earlier (n # ns) =
     (n \<notin> set earlier \<and> set (input_nodes (cls (s n))) \<subseteq> set earlier \<and> in_order s (n # earlier) ns)"

text \<open>
  What no call changes on a node: its class and name, the output of a value node, and the
  attribute \<^verbatim>\<open>a_minus_b\<close> of a node that is not a squared-distance node.
\<close>

definition stable :: "node \<Rightarrow> node \<Rightarrow> bool" where
  "stable nd nd' \<longleftrightarrow>
     cls nd' = cls nd \<and> node_name nd' = node_name nd \<and>
     (cls nd = ValueNode \<longrightarrow> out nd' = out nd) \<and>
     ((\<forall>a b. cls nd \<noteq> SquaredL2DistanceNode a b) \<longrightarrow> a_minus_b nd' = a_minus_b nd)"

fun target :: "call \<Rightarrow> node_id" where
  "target (Forward n) = n"
| "target (Backward n) = n"
| "target (Assign_d_out n g) = n"

section \<open>Concrete scenarios\<close>

definition distance_graph :: store where
  "distance_graph =
     (\<lambda>_. new_node [] ValueNode)
       (0 := leaf ''a'' (Vec [1, 2, 3]),
        1 := leaf ''b'' (Vec [4, 5, 7]),
        2 := new_node ''d'' (SquaredL2DistanceNode 0 1))"

definition affine_graph :: store where
  "affine_graph =
     (\<lambda>_. new_node [] ValueNode)
       (0 := leaf ''x'' (Vec [1, 0]),
        1 := leaf ''w'' (Vec [2, 3]),
        2 := leaf ''b'' (Scalar 5),
        3 := new_node ''f'' (VectorScalarAffineNode 0 1 2))"

definition penalty_graph :: store where
  "penalty_graph =
     (\<lambda>_. new_node [] ValueNode)
       (0 := leaf ''w'' (Vec [1, 2]),
        1 := new_node ''reg'' (L2NormPenaltyNode 3 0))"

text \<open>
  A diamond: the value node \<open>w\<close> feeds an L2 penalty node and a squared-distance node,
  which feed a final sum.
\<close>

definition diamond_graph :: store where
  "diamond_graph =
     (\<lambda>_. new_node [] ValueNode)
       (0 := leaf ''w'' (Vec [1, 2]),
        1 := leaf ''y'' (Vec [4, 6]),
        2 := new_node ''reg'' (L2NormPenaltyNode 3 0),
        3 := new_node ''loss'' (SquaredL2DistanceNode 0 1),
        4 := new_node ''objective'' (SumNode 2 3))"

definition unfinished_graph :: store where
  "unfinished_graph =
     (\<lambda>_. new_node [] ValueNode)
       (0 := new_node [] AffineNode,
        1 := new_node [] TanhNode)"

section \<open>Auxiliary facts\<close>

lemmas eval_simps =
  forward_def backward_def add_to_d_out_def np_add_def np_sub_def np_mul_def two_def
  new_node_def leaf_def Let_def

lemma shape_np_zeros: "shape (np_zeros (shape v)) = shape v"
  by (cases v) simp_all

lemma entries_np_zeros: "list_all (\<lambda>x. x = 0) (entries (np_zeros (shape v)))"
  by (cases v) (simp_all add: list_all_iff)

lemma then_do_Inr: "then_do m f = Inr r \<longleftrightarrow> (\<exists>v. m = Inr v \<and> f v = Inr r)"
  by (cases m) simp_all

lemma forward_sets:
  assumes "forward n s = Inr (v, s')"
  shows "out (s' n) = Some v \<and> d_out (s' n) = Some (np_zeros (shape v))"
  using assms
  by (auto simp: forward_def then_do_Inr Let_def split: node_class.splits option.splits)

lemma iadd_None [simp]: "iadd None c = Inl TypeError" "iadd t None = Inl TypeError"
proof -
  show "iadd None c = Inl TypeError" by simp
  show "iadd t None = Inl TypeError"
  proof (cases t)
    case (Some a) then show ?thesis by (cases a) simp_all
  qed simp
qed

lemma binop_None [simp]: "binop f t None = Inl TypeError"
  by (cases t) simp_all

lemma binop_Inr_Some: "binop f a b = Inr v \<Longrightarrow> \<exists>a'. a = Some a'"
  by (cases a) simp_all

lemma iadd_Inr_Some: "iadd t c = Inr v \<Longrightarrow> \<exists>c'. c = Some c'"
  by (cases c) simp_all

lemma add_to_d_out_Inr:
  "add_to_d_out p c s = Inr s' \<longleftrightarrow>
     (\<exists>v. iadd (d_out (s p)) c = Inr v \<and> s' = s(p := (s p)\<lparr>d_out := Some v\<rparr>))"
  by (auto simp: add_to_d_out_def then_do_Inr)

lemma add_to_d_out_other:
  "add_to_d_out p c s = Inr s' \<Longrightarrow> q \<noteq> p \<Longrightarrow> s' q = s q"
  by (auto simp: add_to_d_out_Inr)

lemma backward_add_all:
  assumes bw: "backward n s = Inr (r, s')" and self: "n \<notin> set (input_nodes (cls (s n)))"
  shows "\<exists>k. local_contributions n s = Inr k \<and> add_all k s = Inr s'"
proof (cases "cls (s n)")
  case ValueNode
  with bw show ?thesis by (simp add: backward_def local_contributions_def)
next
  case (VectorScalarAffineNode x w b)
  with self have ne: "x \<noteq> n" "w \<noteq> n" "b \<noteq> n" by auto
  from bw VectorScalarAffineNode obtain d_x d_w s1 s2 where
    dx: "np_mul (d_out (s n)) (out (s w)) = Inr d_x" and
    dw: "np_mul (d_out (s n)) (out (s x)) = Inr d_w" and
    s1: "add_to_d_out x (Some d_x) s = Inr s1" and
    s2: "add_to_d_out w (Some d_w) s1 = Inr s2" and
    s3: "add_to_d_out b (d_out (s2 n)) s2 = Inr s'"
    by (auto simp: backward_def then_do_Inr)
  from dx obtain g where g: "d_out (s n) = Some g"
    by (auto simp: np_mul_def dest: binop_Inr_Some)
  have "s2 n = s n"
    using add_to_d_out_other [OF s1, of n] add_to_d_out_other [OF s2, of n] ne by simp
  with s3 g have "add_to_d_out b (Some g) s2 = Inr s'" by simp
  with s1 s2 have "add_all [(x, d_x), (w, d_w), (b, g)] s = Inr s'" by simp
  moreover have "local_contributions n s = Inr [(x, d_x), (w, d_w), (b, g)]"
    using VectorScalarAffineNode dx dw g by (simp add: local_contributions_def)
  ultimately show ?thesis by blast
next
  case (SquaredL2DistanceNode a b)
  from bw SquaredL2DistanceNode obtain d2 d_a nd nd2 d_b s1 where
    "np_mul (d_out (s n)) two = Inr d2"
    "np_mul (Some d2) (a_minus_b (s n)) = Inr d_a"
    "np_neg (d_out (s n)) = Inr nd"
    "np_mul (Some nd) two = Inr nd2"
    "np_mul (Some nd2) (a_minus_b (s n)) = Inr d_b"
    "add_to_d_out a (Some d_a) s = Inr s1"
    "add_to_d_out b (Some d_b) s1 = Inr s'"
    by (auto simp: backward_def then_do_Inr)
  then have "local_contributions n s = Inr [(a, d_a), (b, d_b)]"
    and "add_all [(a, d_a), (b, d_b)] s = Inr s'"
    using SquaredL2DistanceNode by (simp_all add: local_contributions_def)
  then show ?thesis by blast
next
  case (L2NormPenaltyNode l2_reg w)
  from bw L2NormPenaltyNode obtain d2 d_w where
    "np_mul (d_out (s n)) two = Inr d2"
    "np_mul (Some d2) (out (s w)) = Inr d_w"
    "add_to_d_out w (Some d_w) s = Inr s'"
    by (auto simp: backward_def then_do_Inr)
  then have "local_contributions n s = Inr [(w, d_w)]"
    and "add_all [(w, d_w)] s = Inr s'"
    using L2NormPenaltyNode by (simp_all add: local_contributions_def)
  then show ?thesis by blast
next
  case (SumNode a b)
  with self have ne: "a \<noteq> n" "b \<noteq> n" by auto
  from bw SumNode obtain s1 where
    s1: "add_to_d_out a (d_out (s n)) s = Inr s1" and
    s2: "add_to_d_out b (d_out (s1 n)) s1 = Inr s'"
    by (auto simp: backward_def then_do_Inr)
  from s1 obtain g where g: "d_out (s n) = Some g"
    by (auto simp: add_to_d_out_Inr dest: iadd_Inr_Some)
  have "s1 n = s n" using add_to_d_out_other [OF s1, of n] ne by simp
  with s1 s2 g have "add_all [(a, g), (b, g)] s = Inr s'" by simp
  moreover have "local_contributions n s = Inr [(a, g), (b, g)]"
    using SumNode g by (simp add: local_contributions_def)
  ultimately show ?thesis by blast
next
  case AffineNode
  with bw show ?thesis by (simp add: backward_def)
next
  case TanhNode
  with bw show ?thesis by (simp add: backward_def)
qed

lemma add_all_effect:
  assumes "add_all k s = Inr s'"
  shows "accumulate (d_out (s p)) (summands_for p k) = Inr (d_out (s' p)) \<and>
         node_name (s' p) = node_name (s p) \<and> cls (s' p) = cls (s p) \<and> out (s' p) = out (s p) \<and>
         a_minus_b (s' p) = a_minus_b (s p)"
  using assms
proof (induction k arbitrary: s)
  case Nil
  then show ?case by (simp add: summands_for_def)
next
  case (Cons qc k)
  obtain q c where qc: "qc = (q, c)" by (cases qc)
  from Cons.prems qc obtain s1 where
    s1: "add_to_d_out q (Some c) s = Inr s1" and rest: "add_all k s1 = Inr s'"
    by (auto simp: then_do_Inr)
  note IH = Cons.IH [OF rest]
  from s1 obtain v where v: "iadd (d_out (s q)) (Some c) = Inr v"
    and s1_eq: "s1 = s(q := (s q)\<lparr>d_out := Some v\<rparr>)"
    by (auto simp: add_to_d_out_Inr)
  show ?case
  proof (cases "q = p")
    case True
    with IH v s1_eq qc show ?thesis by (simp add: summands_for_def)
  next
    case False
    with IH s1_eq qc show ?thesis by (simp add: summands_for_def)
  qed
qed

lemma stable_refl [simp]: "stable nd nd"
  by (simp add: stable_def)

lemma stable_trans: "stable a b \<Longrightarrow> stable b c \<Longrightarrow> stable a c"
  by (auto simp: stable_def)

lemma forward_frame:
  assumes "forward n s = Inr (v, s')"
  shows "stable (s m) (s' m) \<and> (m \<noteq> n \<longrightarrow> s' m = s m)"
  using assms
  by (cases "cls (s n)")
     (auto simp: forward_def then_do_Inr Let_def stable_def split: option.splits)

lemma backward_frame:
  assumes "backward n s = Inr (r, s')"
  shows "stable (s m) (s' m) \<and> (m \<notin> set (input_nodes (cls (s n))) \<longrightarrow> s' m = s m)"
  using assms
  by (cases "cls (s n)")
     (auto simp: backward_def then_do_Inr add_to_d_out_Inr stable_def)

lemma forward_replay:
  assumes fw: "forward n s = Inr (v, s')"
    and st: "stable (s n) (t n)"
    and inp: "\<forall>m \<in> set (input_nodes (cls (s n))). out (t m) = out (s m)"
  shows "\<exists>t'. forward n t = Inr (v, t') \<and> t' n = s' n \<and> (\<forall>m. m \<noteq> n \<longrightarrow> t' m = t m)"
proof (cases "cls (s n)")
  case ValueNode
  with fw st show ?thesis
    by (auto simp: forward_def stable_def split: option.splits)
next
  case (VectorScalarAffineNode x w b)
  with fw st inp show ?thesis
    by (auto simp: forward_def stable_def then_do_Inr)
next
  case (SquaredL2DistanceNode a b)
  with fw st inp show ?thesis
    by (auto simp: forward_def stable_def then_do_Inr Let_def)
next
  case (L2NormPenaltyNode l2_reg w)
  with fw st inp show ?thesis
    by (auto simp: forward_def stable_def then_do_Inr Let_def)
next
  case (SumNode a b)
  with fw st inp show ?thesis
    by (auto simp: forward_def stable_def then_do_Inr)
next
  case AffineNode
  with fw show ?thesis by (simp add: forward_def)
next
  case TanhNode
  with fw show ?thesis by (simp add: forward_def)
qed

lemma run_append: "run (xs @ ys) s = then_do (run xs s) (run ys)"
proof (induction xs arbitrary: s)
  case Nil
  show ?case by simp
next
  case (Cons c xs)
  show ?case
  proof (cases c)
    case (Forward n)
    with Cons show ?thesis by (cases "forward n s") auto
  next
    case (Backward n)
    with Cons show ?thesis by (cases "backward n s") auto
  next
    case (Assign_d_out n g)
    show ?thesis by (simp only: Assign_d_out append_Cons run.simps Cons.IH)
  qed
qed

lemma in_order_cls:
  "\<forall>m. cls (t m) = cls (s m) \<Longrightarrow> in_order t earlier ns = in_order s earlier ns"
  by (induction ns arbitrary: earlier) simp_all

lemma in_order_fresh: "in_order s earlier ns \<Longrightarrow> set ns \<inter> set earlier = {} \<and> distinct ns"
proof (induction ns arbitrary: earlier)
  case Nil
  show ?case by simp
next
  case (Cons n ns)
  from Cons.prems have "n \<notin> set earlier" and "in_order s (n # earlier) ns" by simp_all
  with Cons.IH [of "n # earlier"] show ?case by auto
qed

lemma in_order_closed:
  "in_order s earlier ns \<Longrightarrow> n \<in> set ns \<Longrightarrow> set (input_nodes (cls (s n))) \<subseteq> set earlier \<union> set ns"
proof (induction ns arbitrary: earlier)
  case Nil
  then show ?case by simp
next
  case (Cons k ns)
  from Cons.prems(1) have inp: "set (input_nodes (cls (s k))) \<subseteq> set earlier"
    and ord: "in_order s (k # earlier) ns" by simp_all
  show ?case
  proof (cases "n = k")
    case True
    with inp show ?thesis by auto
  next
    case False
    with Cons.prems(2) have "n \<in> set ns" by simp
    from Cons.IH [OF ord this] show ?thesis by auto
  qed
qed

lemma forward_pass_replay:
  assumes "run (map Forward ns) s = Inr u"
    and "in_order s earlier ns"
    and "\<forall>m. m \<notin> set ns \<longrightarrow> t m = s m"
    and "\<forall>m. stable (s m) (t m)"
  shows "run (map Forward ns) t = Inr u"
  using assms
proof (induction ns arbitrary: s t earlier)
  case Nil
  then have "t = s" by auto
  with Nil show ?case by simp
next
  case (Cons n ns)
  from Cons.prems(1) obtain v s' where
    fw: "forward n s = Inr (v, s')" and rest: "run (map Forward ns) s' = Inr u"
    by (auto simp: then_do_Inr)
  from Cons.prems(2) have n_new: "n \<notin> set earlier"
    and inp: "set (input_nodes (cls (s n))) \<subseteq> set earlier"
    and ord: "in_order s (n # earlier) ns" by simp_all
  from in_order_fresh [OF ord] have fresh: "set ns \<inter> set (n # earlier) = {}" ..
  have "\<forall>m \<in> set (input_nodes (cls (s n))). out (t m) = out (s m)"
  proof
    fix m assume "m \<in> set (input_nodes (cls (s n)))"
    with inp have "m \<in> set earlier" by auto
    with n_new fresh have "m \<notin> set (n # ns)" by auto
    with Cons.prems(3) show "out (t m) = out (s m)" by simp
  qed
  with forward_replay [OF fw, of t] Cons.prems(4) obtain t' where
    fw': "forward n t = Inr (v, t')" and tn: "t' n = s' n"
    and tm: "\<forall>m. m \<noteq> n \<longrightarrow> t' m = t m" by blast
  have sm: "\<forall>m. m \<noteq> n \<longrightarrow> s' m = s m" and ss: "\<forall>m. stable (s m) (s' m)"
    using forward_frame [OF fw] by auto
  from ss have "\<forall>m. cls (s' m) = cls (s m)" by (simp add: stable_def)
  from in_order_cls [OF this] ord have ord': "in_order s' (n # earlier) ns" by simp
  have agree: "\<forall>m. m \<notin> set ns \<longrightarrow> t' m = s' m"
    using tn tm sm Cons.prems(3) by (metis set_ConsD)
  have "\<forall>m. stable (s' m) (t' m)"
  proof
    fix m
    show "stable (s' m) (t' m)"
    proof (cases "m = n")
      case True with tn show ?thesis by simp
    next
      case False
      with tm sm Cons.prems(4) show ?thesis by simp
    qed
  qed
  from Cons.IH [OF rest ord' agree this] fw' show ?case by simp
qed

lemma run_frame:
  assumes "run cs s = Inr s'"
    and "target ` set cs \<subseteq> A"
    and "\<forall>n \<in> A. set (input_nodes (cls (s n))) \<subseteq> A"
  shows "stable (s m) (s' m) \<and> (m \<notin> A \<longrightarrow> s' m = s m)"
  using assms
proof (induction cs arbitrary: s)
  case Nil
  then show ?case by simp
next
  case (Cons c cs)
  have "\<exists>s1. run cs s1 = Inr s' \<and> (\<forall>m. stable (s m) (s1 m) \<and> (m \<notin> A \<longrightarrow> s1 m = s m))"
  proof (cases c)
    case (Forward n)
    with Cons.prems(1) obtain v s1 where
      fw: "forward n s = Inr (v, s1)" and rest: "run cs s1 = Inr s'"
      by (auto simp: then_do_Inr)
    from Forward Cons.prems(2) have "n \<in> A" by simp
    with forward_frame [OF fw]
    have "\<forall>m. stable (s m) (s1 m) \<and> (m \<notin> A \<longrightarrow> s1 m = s m)" by (metis subsetD)
    with rest show ?thesis by blast
  next
    case (Backward n)
    with Cons.prems(1) obtain r s1 where
      bw: "backward n s = Inr (r, s1)" and rest: "run cs s1 = Inr s'"
      by (auto simp: then_do_Inr)
    from Backward Cons.prems(2) have "n \<in> A" by simp
    with Cons.prems(3) have "set (input_nodes (cls (s n))) \<subseteq> A" by blast
    with backward_frame [OF bw]
    have "\<forall>m. stable (s m) (s1 m) \<and> (m \<notin> A \<longrightarrow> s1 m = s m)" by (metis subsetD)
    with rest show ?thesis by blast
  next
    case (Assign_d_out n g)
    with Cons.prems(1) have rest: "run cs (s(n := (s n)\<lparr>d_out := Some g\<rparr>)) = Inr s'" by simp
    from Assign_d_out Cons.prems(2) have "n \<in> A" by simp
    then have "\<forall>m. stable (s m) ((s(n := (s n)\<lparr>d_out := Some g\<rparr>)) m) \<and>
                  (m \<notin> A \<longrightarrow> (s(n := (s n)\<lparr>d_out := Some g\<rparr>)) m = s m)"
      by (auto simp: stable_def)
    with rest show ?thesis by blast
  qed
  then obtain s1 where rest: "run cs s1 = Inr s'"
    and fr: "\<forall>m. stable (s m) (s1 m) \<and> (m \<notin> A \<longrightarrow> s1 m = s m)" by blast
  from fr have "\<forall>m. cls (s1 m) = cls (s m)" by (simp add: stable_def)
  with Cons.prems(3) have closed: "\<forall>n \<in> A. set (input_nodes (cls (s1 n))) \<subseteq> A" by simp
  from Cons.prems(2) have "target ` set cs \<subseteq> A" by auto
  from Cons.IH [OF rest this closed] fr show ?case
    by (metis stable_trans)
qed

lemma accumulate_append:
  "accumulate v (xs @ ys) = then_do (accumulate v xs) (\<lambda>v'. accumulate v' ys)"
proof (induction xs arbitrary: v)
  case Nil
  show ?case by simp
next
  case (Cons c xs)
  then show ?case by (cases "iadd v (Some c)") simp_all
qed

lemma map2_add_zeros: "length xs = n \<Longrightarrow> map2 (+) (replicate n (0::real)) xs = xs"
proof (induction xs arbitrary: n)
  case Nil
  then show ?case by simp
next
  case (Cons x xs)
  then obtain k where "n = Suc k" by (cases n) auto
  with Cons show ?case by simp
qed

lemma accumulate_from_zeros:
  assumes "shape e2 = shape e1"
  shows "accumulate (Some (np_zeros (shape e1))) [e1, e2] =
         map_sum id Some (np_add (Some e1) (Some e2))"
proof (cases e1)
  case (Scalar a)
  with assms obtain b where "e2 = Scalar b" by (cases e2) auto
  with Scalar show ?thesis by (simp add: np_add_def)
next
  case (Vec xs)
  with assms obtain ys where "e2 = Vec ys" "length ys = length xs" by (cases e2) auto
  with Vec show ?thesis by (simp add: np_add_def map2_add_zeros)
qed

section \<open>The claims\<close>

text \<open>
  C1. The claim is that forward of an L2 penalty node returns \<open>l2_reg * sum (w.out ^ 2)\<close>,
  as the class docstring says. The method never reads \<open>l2_reg\<close>: with \<open>l2_reg = 3\<close>
  and \<open>w.out = [1,2]\<close> it returns and stores \<open>5\<close>, not \<open>15\<close>.
\<close>

theorem l2_penalty_forward_ignores_l2_reg:
  "(case run [Forward 0] penalty_graph of
      Inl e \<Rightarrow> False
    | Inr s \<Rightarrow>
        (case forward 1 s of
           Inl e \<Rightarrow> False
         | Inr (v, s') \<Rightarrow>
             v = Scalar 5 \<and> out (s' 1) = Some (Scalar 5) \<and>
             v \<noteq> Scalar (3 * sum_list (map (\<lambda>x. x ^ 2) [1, 2]))))"
  by (simp add: penalty_graph_def eval_simps)

text \<open>
  C2. The claim is that backward of an L2 penalty node adds \<open>d_out * 2 * l2_reg * w.out\<close>
  into \<open>w.d_out\<close>. The method leaves the factor \<open>l2_reg\<close> out: with \<open>l2_reg = 3\<close>,
  \<open>w.out = [1,2]\<close>, \<open>w.d_out\<close> zero after forward and \<open>d_out = 1\<close>, it leaves
  \<open>[2,4]\<close> in \<open>w.d_out\<close>, not \<open>[6,12]\<close>.
\<close>

theorem l2_penalty_backward_ignores_l2_reg:
  "(case run [Forward 0, Forward 1, Assign_d_out 1 (Scalar 1)] penalty_graph of
      Inl e \<Rightarrow> False
    | Inr s \<Rightarrow>
        d_out (s 0) = Some (Vec [0, 0]) \<and>
        (case backward 1 s of
           Inl e \<Rightarrow> False
         | Inr (r, s') \<Rightarrow>
             d_out (s' 0) = Some (Vec [2, 4]) \<and>
             d_out (s' 0) \<noteq> Some (Vec (map (\<lambda>x. 0 + 1 * 2 * 3 * x) [1, 2]))))"
  by (simp add: penalty_graph_def eval_simps)

text \<open>
  C3. The claim is that \<open>get_predecessors\<close> of an L2 penalty node returns the list
  holding the node \<open>w\<close> only. The method returns \<open>[w, l2_reg]\<close>: its second element is
  the number \<open>l2_reg\<close>, which is not a node.
\<close>

theorem l2_penalty_predecessors_include_l2_reg:
  "get_predecessors (cls (penalty_graph 1)) = Inr [Node 0, Number 3] \<and>
   get_predecessors (cls (penalty_graph 1)) \<noteq> Inr [Node 0] \<and>
   \<not> list_all is_node [Node 0, Number 3]"
  by (simp add: penalty_graph_def eval_simps)

text \<open>
  C4. With value nodes \<open>a\<close> holding \<open>[1,2,3]\<close> and \<open>b\<close> holding \<open>[4,5,7]\<close> and a
  squared-distance node \<open>d\<close> over them: after forward on \<open>a\<close>, \<open>b\<close>, \<open>d\<close> the output
  of \<open>d\<close> is \<open>34\<close>; after assigning \<open>1\<close> to \<open>d.d_out\<close> and calling backward on
  \<open>d\<close>, \<open>a.d_out\<close> is \<open>[-6,-6,-8]\<close> and \<open>b.d_out\<close> is \<open>[6,6,8]\<close>.
\<close>

theorem squared_distance_scenario:
  "(case run [Forward 0, Forward 1, Forward 2] distance_graph of
      Inl e \<Rightarrow> False
    | Inr s \<Rightarrow>
        out (s 2) = Some (Scalar 34) \<and>
        (case run [Assign_d_out 2 (Scalar 1), Backward 2] s of
           Inl e \<Rightarrow> False
         | Inr s' \<Rightarrow>
             d_out (s' 0) = Some (Vec [-6, -6, -8]) \<and>
             d_out (s' 1) = Some (Vec [6, 6, 8])))"
  by (simp add: distance_graph_def eval_simps)

text \<open>
  C5. With value nodes \<open>x\<close> holding \<open>[1,0]\<close>, \<open>w\<close> holding \<open>[2,3]\<close> and \<open>b\<close>
  holding the 0-dimensional array \<open>5\<close>, and a vector-to-scalar affine node over them:
  after forward on all four nodes the affine node's output is \<open>7\<close>; after assigning
  \<open>1\<close> to its \<open>d_out\<close> and calling its backward, \<open>x.d_out\<close> is \<open>[2,3]\<close>,
  \<open>w.d_out\<close> is \<open>[1,0]\<close> and \<open>b.d_out\<close> is \<open>1\<close>.
\<close>

theorem vector_scalar_affine_scenario:
  "(case run [Forward 0, Forward 1, Forward 2, Forward 3] affine_graph of
      Inl e \<Rightarrow> False
    | Inr s \<Rightarrow>
        out (s 3) = Some (Scalar 7) \<and>
        (case run [Assign_d_out 3 (Scalar 1), Backward 3] s of
           Inl e \<Rightarrow> False
         | Inr s' \<Rightarrow>
             d_out (s' 0) = Some (Vec [2, 3]) \<and>
             d_out (s' 1) = Some (Vec [1, 0]) \<and>
             d_out (s' 2) = Some (Scalar 1)))"
  by (simp add: affine_graph_def eval_simps)

text \<open>
  C6. Whenever a call of forward returns, on a node of any class and from any store, the
  node's \<open>out\<close> is the returned array and its \<open>d_out\<close> is an array of the same shape
  as \<open>out\<close> whose entries are all zero.
\<close>

theorem forward_resets_d_out:
  assumes "forward n s = Inr (v, s')"
  shows "out (s' n) = Some v \<and>
         (\<exists>z. d_out (s' n) = Some z \<and> shape z = shape v \<and> list_all (\<lambda>x. x = 0) (entries z))"
  using forward_sets [OF assms] by (simp add: shape_np_zeros entries_np_zeros)

text \<open>The squared-distance node of the first scenario, before any other call.\<close>

theorem forward_resets_d_out_witness:
  "\<exists>s'. forward 2 distance_graph = Inr (Scalar 34, s') \<and>
        out (s' 2) = Some (Scalar 34) \<and>
        (\<exists>z. d_out (s' 2) = Some z \<and> shape z = shape (Scalar 34) \<and>
             list_all (\<lambda>x. x = 0) (entries z))"
proof -
  obtain s' where fw: "forward 2 distance_graph = Inr (Scalar 34, s')"
    by (simp add: distance_graph_def eval_simps)
  from forward_resets_d_out [OF fw] fw show ?thesis by blast
qed

text \<open>
  C7. Backward adds into the \<open>d_out\<close> of the node's inputs and never overwrites it. For
  a call of backward that returns, on a node that is not its own input, the \<open>d_out\<close> of
  every node \<open>p\<close> afterwards is its value before the call with the summands that the call
  has for \<open>p\<close> added in turn (none when \<open>p\<close> is not an input of the node). Hence after
  the backward calls of two consumers \<open>c1\<close> and \<open>c2\<close>, \<open>p.d_out\<close> is its earlier
  value with the summands of both added; when it was the zero array that forward left and
  each consumer has one summand for \<open>p\<close>, of that shape, it is the sum of the two.
\<close>

theorem backward_adds_into_d_out:
  assumes b1: "backward c1 s = Inr (r1, s1)"
    and b2: "backward c2 s1 = Inr (r2, s2)"
    and n1: "c1 \<notin> set (input_nodes (cls (s c1)))"
    and n2: "c2 \<notin> set (input_nodes (cls (s c2)))"
  shows "\<exists>k1 k2.
           local_contributions c1 s = Inr k1 \<and> local_contributions c2 s1 = Inr k2 \<and>
           accumulate (d_out (s p)) (summands_for p k1) = Inr (d_out (s1 p)) \<and>
           accumulate (d_out (s1 p)) (summands_for p k2) = Inr (d_out (s2 p)) \<and>
           accumulate (d_out (s p)) (summands_for p k1 @ summands_for p k2) = Inr (d_out (s2 p)) \<and>
           (\<forall>e1 e2. d_out (s p) = Some (np_zeros (shape e1)) \<and> shape e2 = shape e1 \<and>
                    summands_for p k1 = [e1] \<and> summands_for p k2 = [e2] \<longrightarrow>
                    map_sum id Some (np_add (Some e1) (Some e2)) = Inr (d_out (s2 p)))"
proof -
  from backward_add_all [OF b1 n1] obtain k1 where
    k1: "local_contributions c1 s = Inr k1" and a1: "add_all k1 s = Inr s1" by blast
  from backward_frame [OF b1, of c2] have "cls (s1 c2) = cls (s c2)" by (simp add: stable_def)
  with n2 have "c2 \<notin> set (input_nodes (cls (s1 c2)))" by simp
  from backward_add_all [OF b2 this] obtain k2 where
    k2: "local_contributions c2 s1 = Inr k2" and a2: "add_all k2 s1 = Inr s2" by blast
  from add_all_effect [OF a1, of p]
  have e1: "accumulate (d_out (s p)) (summands_for p k1) = Inr (d_out (s1 p))" by simp
  from add_all_effect [OF a2, of p]
  have e2: "accumulate (d_out (s1 p)) (summands_for p k2) = Inr (d_out (s2 p))" by simp
  from e1 e2
  have both: "accumulate (d_out (s p)) (summands_for p k1 @ summands_for p k2) = Inr (d_out (s2 p))"
    by (simp add: accumulate_append)
  have "\<forall>e1 e2. d_out (s p) = Some (np_zeros (shape e1)) \<and> shape e2 = shape e1 \<and>
                summands_for p k1 = [e1] \<and> summands_for p k2 = [e2] \<longrightarrow>
                map_sum id Some (np_add (Some e1) (Some e2)) = Inr (d_out (s2 p))"
  proof (intro allI impI)
    fix e1 e2
    assume h: "d_out (s p) = Some (np_zeros (shape e1)) \<and> shape e2 = shape e1 \<and>
               summands_for p k1 = [e1] \<and> summands_for p k2 = [e2]"
    with both have "accumulate (Some (np_zeros (shape e1))) [e1, e2] = Inr (d_out (s2 p))"
      by simp
    moreover from h have "accumulate (Some (np_zeros (shape e1))) [e1, e2] =
        map_sum id Some (np_add (Some e1) (Some e2))"
      by (intro accumulate_from_zeros) simp
    ultimately show "map_sum id Some (np_add (Some e1) (Some e2)) = Inr (d_out (s2 p))"
      by (simp only:)
  qed
  with k1 k2 e1 e2 both show ?thesis by blast
qed

text \<open>
  The diamond: after the forward pass, the seed and backward of the final sum, the consumers
  of \<open>w\<close> add \<open>[-6,-8]\<close> and \<open>[2,4]\<close> into the zero array \<open>w.d_out\<close>.
\<close>

theorem backward_adds_into_d_out_witness:
  "\<exists>s r1 s1 r2 s2.
     run [Forward 0, Forward 1, Forward 2, Forward 3, Forward 4,
          Assign_d_out 4 (Scalar 1), Backward 4] diamond_graph = Inr s \<and>
     backward 3 s = Inr (r1, s1) \<and> backward 2 s1 = Inr (r2, s2) \<and>
     3 \<notin> set (input_nodes (cls (s 3))) \<and> 2 \<notin> set (input_nodes (cls (s 2))) \<and>
     local_contributions 3 s = Inr [(0, Vec [-6, -8]), (1, Vec [6, 8])] \<and>
     local_contributions 2 s1 = Inr [(0, Vec [2, 4])] \<and>
     d_out (s 0) = Some (Vec [0, 0]) \<and>
     d_out (s1 0) = Some (Vec [-6, -8]) \<and>
     d_out (s2 0) = Some (Vec [-4, -4]) \<and>
     np_add (Some (Vec [-6, -8])) (Some (Vec [2, 4])) = Inr (Vec [-4, -4])"
proof -
  obtain s where run: "run [Forward 0, Forward 1, Forward 2, Forward 3, Forward 4,
          Assign_d_out 4 (Scalar 1), Backward 4] diamond_graph = Inr s"
    and s: "cls (s 3) = SquaredL2DistanceNode 0 1" "cls (s 2) = L2NormPenaltyNode 3 0"
      "d_out (s 3) = Some (Scalar 1)" "d_out (s 2) = Some (Scalar 1)"
      "a_minus_b (s 3) = Some (Vec [-3, -4])" "out (s 0) = Some (Vec [1, 2])"
      "d_out (s 0) = Some (Vec [0, 0])" "d_out (s 1) = Some (Vec [0, 0])"
    by (simp add: diamond_graph_def eval_simps)
  obtain r1 s1 where b1: "backward 3 s = Inr (r1, s1)"
    and s1: "cls (s1 2) = L2NormPenaltyNode 3 0" "d_out (s1 2) = Some (Scalar 1)"
      "out (s1 0) = Some (Vec [1, 2])" "d_out (s1 0) = Some (Vec [-6, -8])"
    using s by (simp add: eval_simps)
  obtain r2 s2 where b2: "backward 2 s1 = Inr (r2, s2)"
    using s1 by (simp add: eval_simps)
  have n1: "3 \<notin> set (input_nodes (cls (s 3)))" and n2: "2 \<notin> set (input_nodes (cls (s 2)))"
    using s by simp_all
  have k1: "local_contributions 3 s = Inr [(0, Vec [-6, -8]), (1, Vec [6, 8])]"
    using s by (simp add: local_contributions_def eval_simps)
  have k2: "local_contributions 2 s1 = Inr [(0, Vec [2, 4])]"
    using s1 by (simp add: local_contributions_def eval_simps)
  from backward_adds_into_d_out [OF b1 b2 n1 n2, of 0] k1 k2 s(7)
  have "d_out (s2 0) = Some (Vec [-4, -4])"
    by (simp add: summands_for_def)
  moreover have "np_add (Some (Vec [-6, -8])) (Some (Vec [2, 4])) = Inr (Vec [-4, -4])"
    by (simp add: np_add_def)
  ultimately show ?thesis
    using run b1 b2 n1 n2 k1 k2 s(7) s1(4) by blast
qed

text \<open>
  C8. Running a cycle (forward on every node in topological order, seeding \<open>d_out\<close> of
  the output node, backward in reverse order) and then running the same cycle again with the
  same seed, the outputs of the value nodes left as they are, ends in the same store: every
  node has the same \<open>out\<close> and the same \<open>d_out\<close> after the second run as after the
  first.
\<close>

theorem rerun_identical:
  assumes cyc: "run (cycle ns out_node seed) s = Inr s1"
    and ord: "in_order s [] ns"
    and out_node: "out_node \<in> set ns"
  shows "run (cycle ns out_node seed) s1 = Inr s1"
proof -
  let ?rest = "[Assign_d_out out_node seed] @ map Backward (rev ns)"
  from cyc obtain u where
    fw: "run (map Forward ns) s = Inr u" and rest: "run ?rest u = Inr s1"
    by (auto simp: cycle_def run_append then_do_Inr)
  have targets: "target ` set (cycle ns out_node seed) \<subseteq> set ns"
    using out_node by (auto simp: cycle_def)
  have closed: "\<forall>n \<in> set ns. set (input_nodes (cls (s n))) \<subseteq> set ns"
    using in_order_closed [OF ord] by auto
  have fr: "\<forall>m. stable (s m) (s1 m) \<and> (m \<notin> set ns \<longrightarrow> s1 m = s m)"
    using run_frame [OF cyc targets closed] by blast
  have "run (map Forward ns) s1 = Inr u"
    using forward_pass_replay [OF fw ord] fr by blast
  with rest show ?thesis by (simp add: cycle_def run_append)
qed

text \<open>Two cycles over the diamond.\<close>

theorem rerun_identical_witness:
  "\<exists>s1. run (cycle [0, 1, 2, 3, 4] 4 (Scalar 1)) diamond_graph = Inr s1 \<and>
        in_order diamond_graph [] [0, 1, 2, 3, 4] \<and> 4 \<in> set [0, 1, 2, 3, 4 :: nat] \<and>
        run (cycle [0, 1, 2, 3, 4] 4 (Scalar 1)) s1 = Inr s1 \<and>
        out (s1 4) = Some (Scalar 30) \<and> d_out (s1 0) = Some (Vec [-4, -4])"
proof -
  obtain s1 where cyc: "run (cycle [0, 1, 2, 3, 4] 4 (Scalar 1)) diamond_graph = Inr s1"
    and vals: "out (s1 4) = Some (Scalar 30)" "d_out (s1 0) = Some (Vec [-4, -4])"
    by (simp add: cycle_def diamond_graph_def eval_simps)
  have ord: "in_order diamond_graph [] [0, 1, 2, 3, 4]"
    by (simp add: diamond_graph_def eval_simps)
  have mem: "4 \<in> set [0, 1, 2, 3, 4 :: nat]" by simp
  from rerun_identical [OF cyc ord mem] cyc ord mem vals show ?thesis by blast
qed

text \<open>
  C9. The claim is that forward of an affine node returns \<open>W x + b\<close> and that backward
  adds the three gradient summands. The class consists of its docstring: it defines neither
  method, so both calls raise \<^verbatim>\<open>AttributeError\<close>.
\<close>

theorem affine_node_has_no_methods:
  "forward 0 unfinished_graph = Inl AttributeError \<and>
   backward 0 unfinished_graph = Inl AttributeError \<and>
   forward 1 unfinished_graph = Inl AttributeError"
  by (simp add: unfinished_graph_def eval_simps)

text \<open>
  C10. Backward of a squared-distance node computes its summands from the difference that
  its latest forward call cached. After forward on the node, let the store change in any way
  that keeps the node's class and cache (the outputs of \<open>a\<close> and \<open>b\<close> may be overwritten,
  \<open>d_out\<close> may be seeded): backward then adds \<open>d_out * 2 * diff\<close> into \<open>a.d_out\<close>
  and \<open>- d_out * 2 * diff\<close> into \<open>b.d_out\<close>, where \<open>diff\<close> is \<open>a.out - b.out\<close>
  as forward read them.
\<close>

theorem squared_distance_backward_uses_cache:
  assumes cls: "cls (s0 n) = SquaredL2DistanceNode a b"
    and fw: "forward n s0 = Inr (v, s1)"
    and kept: "cls (s2 n) = cls (s1 n)" "a_minus_b (s2 n) = a_minus_b (s1 n)"
    and bw: "backward n s2 = Inr (r, s3)"
  shows "\<exists>diff d_a d_b.
           np_sub (out (s0 a)) (out (s0 b)) = Inr diff \<and>
           then_do (np_mul (d_out (s2 n)) two) (\<lambda>d2. np_mul (Some d2) (Some diff)) = Inr d_a \<and>
           then_do (np_neg (d_out (s2 n))) (\<lambda>nd.
             then_do (np_mul (Some nd) two) (\<lambda>nd2. np_mul (Some nd2) (Some diff))) = Inr d_b \<and>
           accumulate (d_out (s2 p)) (summands_for p [(a, d_a), (b, d_b)]) = Inr (d_out (s3 p))"
proof -
  from fw cls obtain diff where
    diff: "np_sub (out (s0 a)) (out (s0 b)) = Inr diff" and
    cache: "a_minus_b (s1 n) = Some diff" and cls1: "cls (s1 n) = SquaredL2DistanceNode a b"
    by (auto simp: forward_def then_do_Inr Let_def)
  from kept cache cls1 have s2: "cls (s2 n) = SquaredL2DistanceNode a b"
    "a_minus_b (s2 n) = Some diff" by simp_all
  from bw s2 obtain d2 d_a nd nd2 d_b sa where
    "np_mul (d_out (s2 n)) two = Inr d2"
    "np_mul (Some d2) (Some diff) = Inr d_a"
    "np_neg (d_out (s2 n)) = Inr nd"
    "np_mul (Some nd) two = Inr nd2"
    "np_mul (Some nd2) (Some diff) = Inr d_b"
    "add_to_d_out a (Some d_a) s2 = Inr sa"
    "add_to_d_out b (Some d_b) sa = Inr s3"
    by (auto simp: backward_def then_do_Inr)
  then have da: "then_do (np_mul (d_out (s2 n)) two) (\<lambda>d2. np_mul (Some d2) (Some diff)) = Inr d_a"
    and db: "then_do (np_neg (d_out (s2 n))) (\<lambda>nd.
             then_do (np_mul (Some nd) two) (\<lambda>nd2. np_mul (Some nd2) (Some diff))) = Inr d_b"
    and "add_all [(a, d_a), (b, d_b)] s2 = Inr s3"
    by simp_all
  from add_all_effect [OF this(3), of p]
  have "accumulate (d_out (s2 p)) (summands_for p [(a, d_a), (b, d_b)]) = Inr (d_out (s3 p))"
    by simp
  with diff da db show ?thesis by blast
qed

text \<open>
  The first scenario with \<open>a.out\<close> overwritten by \<open>[9,9,9]\<close> between forward and
  backward: the gradients are those of the cached difference \<open>[-3,-3,-4]\<close>.
\<close>

theorem squared_distance_backward_uses_cache_witness:
  "\<exists>s0 v s1 r s3.
     run [Forward 0, Forward 1] distance_graph = Inr s0 \<and>
     cls (s0 2) = SquaredL2DistanceNode 0 1 \<and>
     forward 2 s0 = Inr (v, s1) \<and>
     backward 2 (s1(0 := (s1 0)\<lparr>out := Some (Vec [9, 9, 9])\<rparr>,
                    2 := (s1 2)\<lparr>d_out := Some (Scalar 1)\<rparr>)) = Inr (r, s3) \<and>
     np_sub (out (s0 0)) (out (s0 1)) = Inr (Vec [-3, -3, -4]) \<and>
     d_out (s1 0) = Some (Vec [0, 0, 0]) \<and> d_out (s1 1) = Some (Vec [0, 0, 0]) \<and>
     d_out (s3 0) = Some (Vec [-6, -6, -8]) \<and> d_out (s3 1) = Some (Vec [6, 6, 8])"
proof -
  obtain s0 where run: "run [Forward 0, Forward 1] distance_graph = Inr s0"
    and s0: "cls (s0 2) = SquaredL2DistanceNode 0 1"
      "out (s0 0) = Some (Vec [1, 2, 3])" "out (s0 1) = Some (Vec [4, 5, 7])"
      "d_out (s0 0) = Some (Vec [0, 0, 0])" "d_out (s0 1) = Some (Vec [0, 0, 0])"
    by (simp add: distance_graph_def eval_simps)
  obtain v s1 where fw: "forward 2 s0 = Inr (v, s1)"
    and s1: "cls (s1 2) = SquaredL2DistanceNode 0 1" "a_minus_b (s1 2) = Some (Vec [-3, -3, -4])"
      "d_out (s1 0) = Some (Vec [0, 0, 0])" "d_out (s1 1) = Some (Vec [0, 0, 0])"
    using s0 by (simp add: eval_simps)
  let ?s2 = "s1(0 := (s1 0)\<lparr>out := Some (Vec [9, 9, 9])\<rparr>,
                2 := (s1 2)\<lparr>d_out := Some (Scalar 1)\<rparr>)"
  have s2: "cls (?s2 2) = cls (s1 2)" "a_minus_b (?s2 2) = a_minus_b (s1 2)"
    "d_out (?s2 2) = Some (Scalar 1)" "d_out (?s2 0) = Some (Vec [0, 0, 0])"
    "d_out (?s2 1) = Some (Vec [0, 0, 0])"
    using s1 by simp_all
  obtain r s3 where bw: "backward 2 ?s2 = Inr (r, s3)"
    using s1 by (simp add: eval_simps)
  have diff: "np_sub (out (s0 0)) (out (s0 1)) = Inr (Vec [-3, -3, -4])"
    using s0 by (simp add: eval_simps)
  from squared_distance_backward_uses_cache [OF s0(1) fw s2(1) s2(2) bw, of 0] diff s2(3) s2(4)
  have g0: "d_out (s3 0) = Some (Vec [-6, -6, -8])"
    by (simp add: summands_for_def eval_simps then_do_Inr)
  from squared_distance_backward_uses_cache [OF s0(1) fw s2(1) s2(2) bw, of 1] diff s2(3) s2(5)
  have g1: "d_out (s3 1) = Some (Vec [6, 6, 8])"
    by (simp add: summands_for_def eval_simps then_do_Inr)
  from run s0(1) fw bw diff s1(3) s1(4) g0 g1 show ?thesis by blast
qed

end
